theory Spec2Isabelle
  imports Complex_Main "HOL-Library.Char_ord" "HOL-Library.List_Lexorder"
begin

section \<open>Data model (app/models/log.py, app/schemas/log.py)\<close>

text \<open>
  A \<open>datetime\<close> is a count of microseconds since the epoch: the handlers compare
  datetimes, subtract thirty days from one and cast one to a calendar day, and all three
  are arithmetic on that count. Python's unbounded \<open>int\<close> is \<open>int\<close>, \<open>str\<close> is
  \<open>string\<close>.
\<close>

type_synonym datetime = int

datatype LogSeverity = DEBUG | INFO | WARNING | ERROR | CRITICAL

text \<open>The \<open>.value\<close> of a member of the \<open>str\<close> enum.\<close>

fun severity_value :: "LogSeverity \<Rightarrow> string" where
  "severity_value DEBUG = ''DEBUG''"
| "severity_value INFO = ''INFO''"
| "severity_value WARNING = ''WARNING''"
| "severity_value ERROR = ''ERROR''"
| "severity_value CRITICAL = ''CRITICAL''"

text \<open>
  One row of the table \<open>logs\<close>. The primary key column \<open>id\<close> is the field \<open>id_log\<close>
  (\<open>id\<close> is the identity function of HOL). Only \<open>metadata_json\<close> is nullable.
\<close>

record Log =
  id_log :: int
  timestamp :: datetime
  message :: string
  severity :: LogSeverity
  source :: string
  metadata_json :: "string option"
  created_at :: datetime
  updated_at :: datetime

text \<open>
  What a handler can raise: HTTP 404 from the handlers themselves, HTTP 422 from the
  validation of the declared parameters and bodies, and HTTP 500 for an exception of the
  database layer, after which \<open>get_db\<close> rolls the session back.
\<close>

datatype error = NotFound | ValidationError | ServerError

text \<open>
  \<open>LogUpdate\<close>: every field is optional with default \<open>None\<close>, and the model remembers
  which fields the body set. \<open>None\<close> is a field the body did not mention, \<open>Some None\<close> a
  field the body set to \<open>null\<close>, \<open>Some (Some v)\<close> a field set to \<open>v\<close>; so
  \<open>model_dump(exclude_unset=True)\<close> holds exactly the fields that are not \<open>None\<close> here.
  The schema has no \<open>timestamp\<close> field.
\<close>

record LogUpdate =
  message_u :: "string option option"
  severity_u :: "LogSeverity option option"
  source_u :: "string option option"
  metadata_json_u :: "string option option"

section \<open>Request bodies\<close>

text \<open>
  A parsed JSON object is a dictionary from keys to values. \<open>JOther\<close> stands for arrays
  and nested objects, which no field of \<open>LogUpdate\<close> accepts.
\<close>

datatype json = JNull | JStr string | JNum int | JBool bool | JOther

fun severity_of_value :: "string \<Rightarrow> LogSeverity option" where
  "severity_of_value s =
     (if s = ''DEBUG'' then Some DEBUG
      else if s = ''INFO'' then Some INFO
      else if s = ''WARNING'' then Some WARNING
      else if s = ''ERROR'' then Some ERROR
      else if s = ''CRITICAL'' then Some CRITICAL
      else None)"

text \<open>\<open>Optional[str] = Field(None, min_length=lo, max_length=hi)\<close>.\<close>

fun str_field :: "nat \<Rightarrow> nat \<Rightarrow> json option \<Rightarrow> error + string option option" where
  "str_field lo hi None = Inr None"
| "str_field lo hi (Some JNull) = Inr (Some None)"
| "str_field lo hi (Some (JStr s)) =
     (if lo \<le> length s \<and> length s \<le> hi then Inr (Some (Some s)) else Inl ValidationError)"
| "str_field lo hi (Some v) = Inl ValidationError"

text \<open>\<open>Optional[str] = None\<close>, without a length bound.\<close>

fun opt_str_field :: "json option \<Rightarrow> error + string option option" where
  "opt_str_field None = Inr None"
| "opt_str_field (Some JNull) = Inr (Some None)"
| "opt_str_field (Some (JStr s)) = Inr (Some (Some s))"
| "opt_str_field (Some v) = Inl ValidationError"

text \<open>\<open>Optional[LogSeverity] = None\<close>.\<close>

fun severity_field :: "json option \<Rightarrow> error + LogSeverity option option" where
  "severity_field None = Inr None"
| "severity_field (Some JNull) = Inr (Some None)"
| "severity_field (Some (JStr s)) =
     (case severity_of_value s of
        None \<Rightarrow> Inl ValidationError
      | Some v \<Rightarrow> Inr (Some (Some v)))"
| "severity_field (Some v) = Inl ValidationError"

text \<open>
  Validation of a body against \<open>LogUpdate\<close>. The model reads its four fields; the
  schema sets no \<open>extra\<close> policy, so any other key of the body is ignored.
\<close>

definition parse_LogUpdate :: "(string \<rightharpoonup> json) \<Rightarrow> error + LogUpdate" where
  "parse_LogUpdate body =
     (case str_field 1 10000 (body ''message'') of
        Inl e \<Rightarrow> Inl e
      | Inr m \<Rightarrow>
     (case severity_field (body ''severity'') of
        Inl e \<Rightarrow> Inl e
      | Inr sv \<Rightarrow>
     (case str_field 1 255 (body ''source'') of
        Inl e \<Rightarrow> Inl e
      | Inr so \<Rightarrow>
     (case opt_str_field (body ''metadata_json'') of
        Inl e \<Rightarrow> Inl e
      | Inr md \<Rightarrow>
          Inr \<lparr>message_u = m, severity_u = sv, source_u = so, metadata_json_u = md\<rparr>))))"

section \<open>Single-entry handlers (app/routers/logs.py)\<close>


text \<open>
  \<open>setattr\<close> of one dumped field on a column that is not nullable. Storing \<open>None\<close>
  there makes the flush fail on the NOT NULL constraint.
\<close>

fun set_required :: "'a option option \<Rightarrow> 'a \<Rightarrow> error + 'a" where
  "set_required None old = Inr old"
| "set_required (Some None) old = Inl ServerError"
| "set_required (Some (Some v)) old = Inr v"

text \<open>\<open>setattr\<close> of one dumped field on the nullable column.\<close>

fun set_nullable :: "'a option option \<Rightarrow> 'a option \<Rightarrow> 'a option" where
  "set_nullable None old = old"
| "set_nullable (Some v) old = v"

text \<open>
  The flush writes the loaded object back to its row, the first one with the key (the
  primary key makes it the only one).
\<close>

fun write_back :: "int \<Rightarrow> Log \<Rightarrow> Log list \<Rightarrow> Log list" where
  "write_back log_id row [] = []"
| "write_back log_id row (l # ls) =
     (if id_log l = log_id then row # ls else l # write_back log_id row ls)"

text \<open>
  \<open>update_log\<close>. \<open>now\<close> is the database's \<open>now()\<close>, which \<open>onupdate\<close> stores in
  \<open>updated_at\<close> when the flush writes the row; a flush writes a row only if one of its
  attributes differs from the loaded value. \<open>db.refresh\<close> then reads the row back.
\<close>

definition update_log ::
  "datetime \<Rightarrow> Log list \<Rightarrow> int \<Rightarrow> LogUpdate \<Rightarrow> (error + Log) \<times> Log list" where
  "update_log now db log_id log_data =
     (case find (\<lambda>l. id_log l = log_id) db of
        None \<Rightarrow> (Inl NotFound, db)
      | Some entry \<Rightarrow>
     (case set_required (message_u log_data) (message entry) of
        Inl e \<Rightarrow> (Inl e, db)
      | Inr m \<Rightarrow>
     (case set_required (severity_u log_data) (severity entry) of
        Inl e \<Rightarrow> (Inl e, db)
      | Inr sv \<Rightarrow>
     (case set_required (source_u log_data) (source entry) of
        Inl e \<Rightarrow> (Inl e, db)
      | Inr so \<Rightarrow>
          (let edited = entry\<lparr>message := m, severity := sv, source := so,
                 metadata_json := set_nullable (metadata_json_u log_data) (metadata_json entry)\<rparr>;
               row = (if edited = entry then entry else edited\<lparr>updated_at := now\<rparr>)
           in (Inr row, write_back log_id row db))))))"

text \<open>The PUT request: the body is validated before the handler runs.\<close>

definition put_log ::
  "datetime \<Rightarrow> Log list \<Rightarrow> int \<Rightarrow> (string \<rightharpoonup> json) \<Rightarrow> (error + Log) \<times> Log list" where
  "put_log now db log_id body =
     (case parse_LogUpdate body of
        Inl e \<Rightarrow> (Inl e, db)
      | Inr log_data \<Rightarrow> update_log now db log_id log_data)"


section \<open>Filter conditions\<close>

text \<open>\<open>str.lower()\<close> on the ASCII letters, the only ones that can lower to \<open>asc\<close>.\<close>

definition lower_char :: "char \<Rightarrow> char" where
  "lower_char c =
     (case map_of (zip ''ABCDEFGHIJKLMNOPQRSTUVWXYZ'' ''abcdefghijklmnopqrstuvwxyz'') c of
        Some d \<Rightarrow> d
      | None \<Rightarrow> c)"

definition lower :: "string \<Rightarrow> string" where
  "lower s = map lower_char s"

text \<open>
  The SQL operator LIKE, pattern first: \<open>%\<close> matches any run of characters, \<open>_\<close> any
  one character, and a backslash takes the next pattern character literally. A pattern
  that ends in a lone backslash is rejected by the database; it matches nothing here, and
  \<open>list_logs\<close> never builds one, since its patterns end in \<open>%\<close>.
\<close>

fun like_match :: "string \<Rightarrow> string \<Rightarrow> bool" where
  "like_match [] s = (s = [])"
| "like_match (p # ps) [] = (p = CHR ''%'' \<and> like_match ps [])"
| "like_match (p # ps) (c # cs) =
     (if p = CHR ''%'' then like_match ps (c # cs) \<or> like_match (p # ps) cs
      else if p = CHR ''_'' then like_match ps cs
      else if p = CHR 0x5C then
        (case ps of [] \<Rightarrow> False | q # qs \<Rightarrow> q = c \<and> like_match qs cs)
      else p = c \<and> like_match ps cs)"

text \<open>\<open>column.ilike(pattern)\<close>: LIKE on the lowered column value and pattern.\<close>

definition ilike :: "string \<Rightarrow> string \<Rightarrow> bool" where
  "ilike s pattern = like_match (lower pattern) (lower s)"

text \<open>
  Each handler appends to its own list \<open>conditions\<close>. A \<open>datetime\<close> and a member of
  \<open>LogSeverity\<close> are truthy, so \<open>if start_date:\<close> tests for \<open>None\<close> only; a string is
  falsy when empty, so \<open>if source:\<close> also skips \<open>""\<close>.
\<close>

definition list_conditions ::
  "datetime option \<Rightarrow> datetime option \<Rightarrow> LogSeverity option \<Rightarrow> string option \<Rightarrow>
   string option \<Rightarrow> (Log \<Rightarrow> bool) list" where
  "list_conditions start_date end_date sev src search =
     (case start_date of None \<Rightarrow> [] | Some d \<Rightarrow> [\<lambda>l. d \<le> timestamp l]) @
     (case end_date of None \<Rightarrow> [] | Some d \<Rightarrow> [\<lambda>l. timestamp l \<le> d]) @
     (case sev of None \<Rightarrow> [] | Some v \<Rightarrow> [\<lambda>l. severity l = v]) @
     (case src of None \<Rightarrow> []
      | Some v \<Rightarrow> if v = [] then [] else [\<lambda>l. ilike (source l) (''%'' @ v @ ''%'')]) @
     (case search of None \<Rightarrow> []
      | Some v \<Rightarrow> if v = [] then [] else [\<lambda>l. ilike (message l) (''%'' @ v @ ''%'')])"

definition stats_conditions ::
  "datetime option \<Rightarrow> datetime option \<Rightarrow> string option \<Rightarrow> (Log \<Rightarrow> bool) list" where
  "stats_conditions start_date end_date src =
     (case start_date of None \<Rightarrow> [] | Some d \<Rightarrow> [\<lambda>l. d \<le> timestamp l]) @
     (case end_date of None \<Rightarrow> [] | Some d \<Rightarrow> [\<lambda>l. timestamp l \<le> d]) @
     (case src of None \<Rightarrow> []
      | Some v \<Rightarrow> if v = [] then [] else [\<lambda>l. source l = v])"


text \<open>\<open>timedelta(days=30)\<close> in microseconds.\<close>

definition thirty_days :: int where
  "thirty_days = 30 * 86400 * 1000000"

text \<open>
  \<open>get_log_trend\<close> appends the thirty-day bound when both dates are absent, whatever
  the other filters are.
\<close>

definition trend_conditions ::
  "datetime \<Rightarrow> datetime option \<Rightarrow> datetime option \<Rightarrow> LogSeverity option \<Rightarrow>
   string option \<Rightarrow> (Log \<Rightarrow> bool) list" where
  "trend_conditions now start_date end_date sev src =
     (case start_date of None \<Rightarrow> [] | Some d \<Rightarrow> [\<lambda>l. d \<le> timestamp l]) @
     (case end_date of None \<Rightarrow> [] | Some d \<Rightarrow> [\<lambda>l. timestamp l \<le> d]) @
     (case sev of None \<Rightarrow> [] | Some v \<Rightarrow> [\<lambda>l. severity l = v]) @
     (case src of None \<Rightarrow> []
      | Some v \<Rightarrow> if v = [] then [] else [\<lambda>l. source l = v]) @
     (if start_date = None \<and> end_date = None
      then [\<lambda>l. now - thirty_days \<le> timestamp l] else [])"

text \<open>\<open>and_(*conditions)\<close>, evaluated on one row.\<close>

definition and_all :: "(Log \<Rightarrow> bool) list \<Rightarrow> Log \<Rightarrow> bool" where
  "and_all conditions l = list_all (\<lambda>c. c l) conditions"

text \<open>\<open>if conditions: query = query.where(and_(*conditions))\<close>, run on the table.\<close>

definition where_if :: "(Log \<Rightarrow> bool) list \<Rightarrow> Log list \<Rightarrow> Log list" where
  "where_if conditions rows =
     (case conditions of
        [] \<Rightarrow> rows
      | c # cs \<Rightarrow> filter (and_all conditions) rows)"

section \<open>Ordering\<close>

text \<open>
  \<open>ORDER BY\<close> is a stable insertion sort of the rows in table order under the column's
  comparison: SQL leaves the order of rows with equal keys open, and this fixes it.
\<close>

fun insort_with :: "('a \<Rightarrow> 'a \<Rightarrow> bool) \<Rightarrow> 'a \<Rightarrow> 'a list \<Rightarrow> 'a list" where
  "insort_with le x [] = [x]"
| "insort_with le x (y # ys) = (if le x y then x # y # ys else y # insort_with le x ys)"

definition sort_with :: "('a \<Rightarrow> 'a \<Rightarrow> bool) \<Rightarrow> 'a list \<Rightarrow> 'a list" where
  "sort_with le xs = foldr (insort_with le) xs []"

datatype column =
  ColId | ColTimestamp | ColMessage | ColSeverity | ColSource | ColMetadataJson
  | ColCreatedAt | ColUpdatedAt

text \<open>The native enum type orders its members as they are declared.\<close>

fun severity_rank :: "LogSeverity \<Rightarrow> nat" where
  "severity_rank DEBUG = 0"
| "severity_rank INFO = 1"
| "severity_rank WARNING = 2"
| "severity_rank ERROR = 3"
| "severity_rank CRITICAL = 4"

text \<open>
  The ascending comparison of each column. Strings compare character by character;
  NULL sorts after every value, as PostgreSQL does.
\<close>

fun le_column :: "column \<Rightarrow> Log \<Rightarrow> Log \<Rightarrow> bool" where
  "le_column ColId a b = (id_log a \<le> id_log b)"
| "le_column ColTimestamp a b = (timestamp a \<le> timestamp b)"
| "le_column ColMessage a b = (message a \<le> message b)"
| "le_column ColSeverity a b = (severity_rank (severity a) \<le> severity_rank (severity b))"
| "le_column ColSource a b = (source a \<le> source b)"
| "le_column ColMetadataJson a b =
     (case metadata_json b of
        None \<Rightarrow> True
      | Some y \<Rightarrow> (case metadata_json a of None \<Rightarrow> False | Some x \<Rightarrow> x \<le> y))"
| "le_column ColCreatedAt a b = (created_at a \<le> created_at b)"
| "le_column ColUpdatedAt a b = (updated_at a \<le> updated_at b)"

text \<open>\<open>query.order_by(asc(c))\<close> and \<open>query.order_by(desc(c))\<close>.\<close>

definition order_by :: "column \<Rightarrow> bool \<Rightarrow> Log list \<Rightarrow> Log list" where
  "order_by c ascending rows =
     sort_with (if ascending then le_column c else (\<lambda>a b. le_column c b a)) rows"

text \<open>
  What \<open>getattr(Log, name, default)\<close> finds. The class statement of \<open>Log\<close> binds the
  eight columns, \<open>__tablename__\<close>, \<open>__repr__\<close> and, through its docstring, \<open>__doc__\<close>;
  the last three are no columns.
\<close>

datatype attribute = Column column | Other

definition Log_attribute :: "string \<Rightarrow> attribute option" where
  "Log_attribute name =
     (if name = ''id'' then Some (Column ColId)
      else if name = ''timestamp'' then Some (Column ColTimestamp)
      else if name = ''message'' then Some (Column ColMessage)
      else if name = ''severity'' then Some (Column ColSeverity)
      else if name = ''source'' then Some (Column ColSource)
      else if name = ''metadata_json'' then Some (Column ColMetadataJson)
      else if name = ''created_at'' then Some (Column ColCreatedAt)
      else if name = ''updated_at'' then Some (Column ColUpdatedAt)
      else if name = ''__tablename__'' then Some Other
      else if name = ''__repr__'' then Some Other
      else if name = ''__doc__'' then Some Other
      else None)"

text \<open>
  \<open>inherited\<close> says which further names \<open>Log\<close> has from \<open>Base\<close>, \<open>DeclarativeBase\<close>,
  \<open>object\<close> and the mapper (\<open>metadata\<close>, \<open>registry\<close>, \<open>__init__\<close>, ...): these
  classes are not part of the repository. The fallback (the third argument) is returned for no name that is
  an attribute.
\<close>

definition getattr_Log :: "(string \<Rightarrow> bool) \<Rightarrow> string \<Rightarrow> attribute \<Rightarrow> attribute" where
  "getattr_Log inherited name fallback =
     (case Log_attribute name of
        Some a \<Rightarrow> a
      | None \<Rightarrow> if inherited name then Other else fallback)"

section \<open>list_logs\<close>

definition MAX_PAGE_SIZE :: int where
  "MAX_PAGE_SIZE = 100"

record LogListResponse =
  items :: "Log list"
  total :: int
  page :: int
  page_size :: int
  total_pages :: int

text \<open>
  \<open>Query(1, ge=1)\<close> and \<open>Query(..., ge=1, le=settings.MAX_PAGE_SIZE)\<close> reject a
  request before the body of the handler runs. \<open>asc\<close> and \<open>desc\<close> of an attribute
  that is no column raise in the database layer.
\<close>

definition list_logs ::
  "(string \<Rightarrow> bool) \<Rightarrow> Log list \<Rightarrow> int \<Rightarrow> int \<Rightarrow> datetime option \<Rightarrow> datetime option \<Rightarrow>
   LogSeverity option \<Rightarrow> string option \<Rightarrow> string option \<Rightarrow> string \<Rightarrow> string \<Rightarrow>
   error + LogListResponse" where
  "list_logs inherited db pg pg_size start_date end_date sev src search sort_by sort_order =
     (if pg < 1 \<or> pg_size < 1 \<or> MAX_PAGE_SIZE < pg_size then Inl ValidationError
      else
        (let conditions = list_conditions start_date end_date sev src search;
             n = int (length (where_if conditions db))
         in case getattr_Log inherited sort_by (Column ColTimestamp) of
              Other \<Rightarrow> Inl ServerError
            | Column sort_column \<Rightarrow>
                (let ordered = order_by sort_column (lower sort_order = ''asc'')
                                 (where_if conditions db);
                     offset = (pg - 1) * pg_size;
                     logs = take (nat pg_size) (drop (nat offset) ordered)
                 in Inr \<lparr>items = logs, total = n, page = pg, page_size = pg_size,
                         total_pages = (n + pg_size - 1) div pg_size\<rparr>)))"

section \<open>Aggregation: get_log_stats and get_log_trend\<close>

text \<open>
  \<open>GROUP BY key\<close> with \<open>count(Log.id)\<close>: one pair for each key that occurs, with the
  number of rows that have it.
\<close>

definition group_count :: "('a \<Rightarrow> 'k) \<Rightarrow> 'a list \<Rightarrow> ('k \<times> int) list" where
  "group_count key rows =
     map (\<lambda>k. (k, int (length (filter (\<lambda>r. key r = k) rows)))) (remdups (map key rows))"

text \<open>
  \<open>cast(Log.timestamp, Date)\<close>: the calendar day as the number of days since the
  epoch, in UTC.
\<close>

definition date_of :: "datetime \<Rightarrow> int" where
  "date_of t = t div 86400000000"

record LogAggregation =
  label :: string
  count :: int

text \<open>
  \<open>LogTrend\<close>. The source stores \<open>str\<close> of the day in \<open>date\<close>; the day itself is
  kept here, which is what the query orders by. The fields \<open>count\<close> and \<open>severity\<close>
  of the schema are \<open>count_t\<close> and \<open>severity_t\<close>.
\<close>

record LogTrend =
  date :: int
  count_t :: int
  severity_t :: "string option"

text \<open>\<open>date_range\<close> is the pair of the two bounds, which the source renders with \<open>str\<close>.\<close>

record LogStats =
  total_logs :: int
  severity_breakdown :: "LogAggregation list"
  source_breakdown :: "LogAggregation list"
  trend_data :: "LogTrend list"
  date_range :: "datetime option \<times> datetime option"

text \<open>
  \<open>get_log_stats\<close>; \<open>now\<close> is \<open>datetime.utcnow()\<close>. The trend query takes the
  thirty-day bound in the \<open>else\<close> branch of \<open>if conditions:\<close>, so only when the list
  of conditions is empty.
\<close>

definition get_log_stats ::
  "datetime \<Rightarrow> Log list \<Rightarrow> datetime option \<Rightarrow> datetime option \<Rightarrow> string option \<Rightarrow> LogStats" where
  "get_log_stats now db start_date end_date src =
     (let conditions = stats_conditions start_date end_date src;
          selected = where_if conditions db;
          trend_rows =
            (case conditions of
               [] \<Rightarrow> filter (\<lambda>l. now - thirty_days \<le> timestamp l) db
             | c # cs \<Rightarrow> filter (and_all conditions) db)
      in \<lparr>total_logs = int (length selected),
          severity_breakdown =
            map (\<lambda>(k, n). \<lparr>label = severity_value k, count = n\<rparr>)
              (sort_with (\<lambda>a b. snd b \<le> snd a) (group_count severity selected)),
          source_breakdown =
            map (\<lambda>(k, n). \<lparr>label = k, count = n\<rparr>)
              (take 10 (sort_with (\<lambda>a b. snd b \<le> snd a) (group_count source selected))),
          trend_data =
            map (\<lambda>(d, n). \<lparr>date = d, count_t = n, severity_t = None\<rparr>)
              (sort_with (\<lambda>a b. fst a \<le> fst b)
                 (group_count (\<lambda>l. date_of (timestamp l)) trend_rows)),
          date_range = (start_date, end_date)\<rparr>)"

text \<open>The rows \<open>get_log_trend\<close> counts: \<open>.where(and_(*conditions) if conditions else True)\<close>.\<close>

definition trend_rows ::
  "datetime \<Rightarrow> Log list \<Rightarrow> datetime option \<Rightarrow> datetime option \<Rightarrow> LogSeverity option \<Rightarrow>
   string option \<Rightarrow> Log list" where
  "trend_rows now db start_date end_date sev src =
     (let conditions = trend_conditions now start_date end_date sev src
      in case conditions of
           [] \<Rightarrow> db
         | c # cs \<Rightarrow> filter (and_all conditions) db)"

definition get_log_trend ::
  "datetime \<Rightarrow> Log list \<Rightarrow> datetime option \<Rightarrow> datetime option \<Rightarrow> LogSeverity option \<Rightarrow>
   string option \<Rightarrow> bool \<Rightarrow> LogTrend list" where
  "get_log_trend now db start_date end_date sev src group_by_severity =
     (let rows = trend_rows now db start_date end_date sev src
      in if group_by_severity then
           map (\<lambda>((d, s), n). \<lparr>date = d, count_t = n, severity_t = Some (severity_value s)\<rparr>)
             (sort_with (\<lambda>a b. fst (fst a) \<le> fst (fst b))
                (group_count (\<lambda>l. (date_of (timestamp l), severity l)) rows))
         else
           map (\<lambda>(d, n). \<lparr>date = d, count_t = n, severity_t = None\<rparr>)
             (sort_with (\<lambda>a b. fst a \<le> fst b)
                (group_count (\<lambda>l. date_of (timestamp l)) rows)))"

section \<open>export_logs_csv\<close>








section \<open>Sample data\<close>

text \<open>An entry without metadata whose bookkeeping timestamps equal its timestamp.\<close>

definition sample_log :: "int \<Rightarrow> datetime \<Rightarrow> LogSeverity \<Rightarrow> string \<Rightarrow> string \<Rightarrow> Log" where
  "sample_log i t sv so m =
     \<lparr>id_log = i, timestamp = t, message = m, severity = sv, source = so,
      metadata_json = None, created_at = t, updated_at = t\<rparr>"

section \<open>Rows by id\<close>


lemma find_id_Some: "find (\<lambda>l. id_log l = i) db = Some e \<Longrightarrow> id_log e = i \<and> e \<in> set db"
  by (auto simp: find_Some_iff)

lemma set_required_Inl: "set_required x old = Inl e \<Longrightarrow> e = ServerError"
  by (cases "(x, old)" rule: set_required.cases) auto

lemma set_required_Inr:
  "set_required x old = Inr v \<Longrightarrow> (x = None \<and> v = old) \<or> x = Some (Some v)"
  by (cases "(x, old)" rule: set_required.cases) auto







section \<open>Get, update and delete by id\<close>




section \<open>Partial update\<close>

lemma write_back_timestamp:
  "find (\<lambda>l. id_log l = i) db = Some e \<Longrightarrow> timestamp row = timestamp e \<Longrightarrow>
   map timestamp (write_back i row db) = map timestamp db"
  by (induction db) (auto split: if_splits)



text \<open>The row after the flush agrees with the edited object except in \<open>updated_at\<close>.\<close>

lemma flushed_row:
  assumes "updated_at edited = updated_at e"
    and "row = (if edited = e then e else edited\<lparr>updated_at := now\<rparr>)"
  shows "id_log row = id_log edited \<and> timestamp row = timestamp edited \<and>
         message row = message edited \<and> severity row = severity edited \<and>
         source row = source edited \<and> metadata_json row = metadata_json edited \<and>
         created_at row = created_at edited \<and>
         (updated_at row = updated_at e \<or> updated_at row = now)"
  using assms by (cases "edited = e") simp_all

text \<open>What an update of an existing entry returns, in terms of the loaded entry.\<close>

lemma update_log_found:
  assumes "find (\<lambda>l. id_log l = i) db = Some e"
  shows "update_log now db i u = (Inl ServerError, db) \<or>
         (\<exists>row. update_log now db i u = (Inr row, write_back i row db) \<and>
            id_log row = i \<and> timestamp row = timestamp e \<and> created_at row = created_at e \<and>
            (updated_at row = updated_at e \<or> updated_at row = now) \<and>
            (message_u u = None \<and> message row = message e \<or> message_u u = Some (Some (message row))) \<and>
            (severity_u u = None \<and> severity row = severity e \<or> severity_u u = Some (Some (severity row))) \<and>
            (source_u u = None \<and> source row = source e \<or> source_u u = Some (Some (source row))) \<and>
            (metadata_json_u u = None \<and> metadata_json row = metadata_json e \<or>
             metadata_json_u u = Some (metadata_json row)))"
proof (cases "set_required (message_u u) (message e)")
  case (Inl x)
  then show ?thesis using assms set_required_Inl[OF Inl] by (simp add: update_log_def)
next
  case m: (Inr m)
  show ?thesis
  proof (cases "set_required (severity_u u) (severity e)")
    case (Inl x)
    then show ?thesis using assms m set_required_Inl[OF Inl] by (simp add: update_log_def)
  next
    case sv: (Inr sv)
    show ?thesis
    proof (cases "set_required (source_u u) (source e)")
      case (Inl x)
      then show ?thesis using assms m sv set_required_Inl[OF Inl] by (simp add: update_log_def)
    next
      case so: (Inr so)
      define edited where "edited = e\<lparr>message := m, severity := sv, source := so,
        metadata_json := set_nullable (metadata_json_u u) (metadata_json e)\<rparr>"
      define row where "row = (if edited = e then e else edited\<lparr>updated_at := now\<rparr>)"
      have res: "update_log now db i u = (Inr row, write_back i row db)"
        using assms m sv so by (simp add: update_log_def Let_def edited_def row_def)
      have "updated_at edited = updated_at e" by (simp add: edited_def)
      from flushed_row[OF this row_def]
      have fr: "id_log row = id_log e" "timestamp row = timestamp e" "message row = m"
        "severity row = sv" "source row = so"
        "metadata_json row = set_nullable (metadata_json_u u) (metadata_json e)"
        "created_at row = created_at e" "updated_at row = updated_at e \<or> updated_at row = now"
        by (simp_all add: edited_def)
      have md: "metadata_json_u u = None \<and> metadata_json row = metadata_json e \<or>
            metadata_json_u u = Some (metadata_json row)"
        unfolding fr by (cases "metadata_json_u u") auto
      have id: "id_log e = i" using assms find_id_Some by blast
      show ?thesis
        using res fr(1,2,3,4,5,7,8) md id set_required_Inr[OF m] set_required_Inr[OF sv]
          set_required_Inr[OF so]
        by auto
    qed
  qed
qed

text \<open>
  Claim C3, as amended. No update changes a timestamp: \<open>LogUpdate\<close> has no
  \<open>timestamp\<close> field, so after \<open>update_log\<close>, and after the PUT request with any
  body, every stored row has the timestamp it had before.
\<close>

theorem update_never_changes_timestamp:
  "map timestamp (snd (put_log now db i body)) = map timestamp db \<and>
   map timestamp (snd (update_log now db i u)) = map timestamp db"
proof -
  have upd: "map timestamp (snd (update_log now db i v)) = map timestamp db" for v
  proof (cases "find (\<lambda>l. id_log l = i) db")
    case None
    then show ?thesis by (simp add: update_log_def)
  next
    case (Some e)
    from update_log_found[OF Some, of now v] show ?thesis
      using write_back_timestamp[OF Some] by auto
  qed
  have "map timestamp (snd (put_log now db i body)) = map timestamp db"
    by (cases "parse_LogUpdate body") (simp_all add: put_log_def upd)
  with upd show ?thesis by simp
qed

text \<open>
  Claim C3 as stated fails: a body that supplies \<open>timestamp\<close> 200 for the entry stored
  with timestamp 100 validates to the empty update, the request succeeds, and the stored
  timestamp is still 100.
\<close>

theorem update_timestamp_counterexample:
  "parse_LogUpdate [''timestamp'' \<mapsto> JNum 200] =
     Inr \<lparr>message_u = None, severity_u = None, source_u = None, metadata_json_u = None\<rparr> \<and>
   put_log 500 [sample_log 1 100 INFO ''svc-a'' ''boot''] 1 [''timestamp'' \<mapsto> JNum 200] =
     (Inr (sample_log 1 100 INFO ''svc-a'' ''boot''), [sample_log 1 100 INFO ''svc-a'' ''boot'']) \<and>
   timestamp (sample_log 1 100 INFO ''svc-a'' ''boot'') \<noteq> 200"
  by (simp add: parse_LogUpdate_def put_log_def update_log_def sample_log_def Let_def)



section \<open>Selection and ordering\<close>

lemma and_all_Nil: "and_all [] l"
  by (simp add: and_all_def)

lemma where_if_filter: "where_if conditions rows = filter (and_all conditions) rows"
  by (cases conditions) (simp_all add: where_if_def and_all_def)

lemma set_insort_with: "set (insort_with le x xs) = insert x (set xs)"
  by (induction xs) auto





text \<open>Sorting permutes the rows: each row occurs as often as before.\<close>

lemma count_insort_with: "count_list (insort_with le x xs) y = count_list (x # xs) y"
  by (induction xs) auto

lemma count_sort_with: "count_list (sort_with le xs) y = count_list xs y"
  by (induction xs) (simp_all add: sort_with_def count_insort_with)

lemma order_by_permutes: "count_list (order_by c ascending rows) l = count_list rows l"
  by (simp add: order_by_def count_sort_with)

lemma sorted_insort_with:
  assumes total: "\<And>a b. le a b \<or> le b a"
    and trans: "\<And>a b c. le a b \<Longrightarrow> le b c \<Longrightarrow> le a c"
  shows "sorted_wrt le xs \<Longrightarrow> sorted_wrt le (insort_with le x xs)"
proof (induction xs)
  case Nil
  then show ?case by simp
next
  case (Cons y ys)
  show ?case
  proof (cases "le x y")
    case True
    then show ?thesis using Cons.prems trans by auto
  next
    case False
    then have "le y x" using total by blast
    then show ?thesis using False Cons by (auto simp: set_insort_with)
  qed
qed

lemma sorted_sort_with:
  assumes total: "\<And>a b. le a b \<or> le b a"
    and trans: "\<And>a b c. le a b \<Longrightarrow> le b c \<Longrightarrow> le a c"
  shows "sorted_wrt le (sort_with le xs)"
proof (induction xs)
  case Nil
  then show ?case by (simp add: sort_with_def)
next
  case (Cons x xs)
  have "sort_with le (x # xs) = insort_with le x (sort_with le xs)"
    by (simp add: sort_with_def)
  then show ?case using sorted_insort_with[of le, OF total trans Cons] by simp
qed

lemma le_column_total: "le_column c a b \<or> le_column c b a"
  by (cases c) (auto split: option.splits)

lemma le_column_trans: "le_column c a b \<Longrightarrow> le_column c b d \<Longrightarrow> le_column c a d"
  by (cases c) (auto split: option.splits)

lemma sorted_order_by_asc: "sorted_wrt (le_column c) (order_by c True rows)"
  unfolding order_by_def using sorted_sort_with[of "le_column c"] le_column_total le_column_trans
  by (metis (full_types))

lemma sorted_order_by_desc: "sorted_wrt (\<lambda>a b. le_column c b a) (order_by c False rows)"
proof -
  have "sorted_wrt (\<lambda>a b. le_column c b a) (sort_with (\<lambda>a b. le_column c b a) rows)"
  proof (rule sorted_sort_with)
    show "le_column c b a \<or> le_column c a b" for a b using le_column_total by blast
    show "le_column c b a \<Longrightarrow> le_column c d b \<Longrightarrow> le_column c d a" for a b d
      using le_column_trans by blast
  qed
  then show ?thesis by (simp add: order_by_def)
qed


section \<open>Listing: pagination, validation, sorting\<close>

text \<open>The response of \<open>list_logs\<close> for valid paging parameters and a sort column.\<close>

lemma list_logs_ok:
  assumes "1 \<le> pg" and "1 \<le> pg_size" and "pg_size \<le> 100"
    and "getattr_Log inherited sort_by (Column ColTimestamp) = Column c"
  shows "list_logs inherited db pg pg_size sd ed sev src search sort_by sort_order =
     Inr \<lparr>items = take (nat pg_size) (drop (nat ((pg - 1) * pg_size))
                 (order_by c (lower sort_order = ''asc'')
                    (filter (and_all (list_conditions sd ed sev src search)) db))),
          total = int (length (filter (and_all (list_conditions sd ed sev src search)) db)),
          page = pg, page_size = pg_size,
          total_pages =
            (int (length (filter (and_all (list_conditions sd ed sev src search)) db))
               + pg_size - 1) div pg_size\<rparr>"
  using assms by (simp add: list_logs_def MAX_PAGE_SIZE_def Let_def where_if_filter)

lemma list_logs_invalid:
  "(list_logs inherited db pg pg_size sd ed sev src search sort_by sort_order = Inl ValidationError)
   = (pg < 1 \<or> pg_size < 1 \<or> 100 < pg_size)"
  by (auto simp: list_logs_def MAX_PAGE_SIZE_def Let_def split: attribute.splits)



text \<open>
  Claim C5, as amended. \<open>list_logs\<close> raises a validation error exactly when
  \<open>page\<close> is below 1 or \<open>page_size\<close> is outside 1..100: a \<open>page_size\<close> out of range
  is rejected like a \<open>page\<close> below 1, and is not clamped.
\<close>

theorem page_size_out_of_range_rejected:
  "(list_logs inherited db pg pg_size sd ed sev src search sort_by sort_order = Inl ValidationError)
   = (pg < 1 \<or> pg_size < 1 \<or> 100 < pg_size)"
  by (rule list_logs_invalid)

text \<open>
  Claim C5 as stated fails: with \<open>page_size\<close> 101, and with \<open>page_size\<close> 0, the
  request is rejected, while the same request with the nearest bound 100 succeeds.
\<close>

theorem page_size_clamp_counterexample:
  "list_logs (\<lambda>n. False) [sample_log 1 10 INFO ''svc-a'' ''a''] 1 101 None None None None None
     ''timestamp'' ''desc'' = Inl ValidationError \<and>
   list_logs (\<lambda>n. False) [sample_log 1 10 INFO ''svc-a'' ''a''] 1 0 None None None None None
     ''timestamp'' ''desc'' = Inl ValidationError \<and>
   list_logs (\<lambda>n. False) [sample_log 1 10 INFO ''svc-a'' ''a''] 1 100 None None None None None
     ''timestamp'' ''desc'' =
     Inr \<lparr>items = [sample_log 1 10 INFO ''svc-a'' ''a''], total = 1, page = 1, page_size = 100,
          total_pages = 1\<rparr>"
  by (simp add: list_logs_def MAX_PAGE_SIZE_def Let_def getattr_Log_def Log_attribute_def
      list_conditions_def where_if_def order_by_def sort_with_def)

lemma getattr_Log_column:
  "Log_attribute sort_by = Some (Column c) \<or>
   (Log_attribute sort_by = None \<and> \<not> inherited sort_by \<and> c = ColTimestamp) \<Longrightarrow>
   getattr_Log inherited sort_by (Column ColTimestamp) = Column c"
  by (auto simp: getattr_Log_def)

text \<open>
  Claim C4, as amended. Each of the eight field names of an entry is bound to its column.
  When \<open>sort_by\<close> names such a field the rows are ordered by that column, and when
  \<open>sort_by\<close> names no attribute of the class \<open>Log\<close> at all they are ordered by
  \<open>timestamp\<close>. The order is ascending exactly when \<open>sort_order\<close>, lowered, is
  \<open>asc\<close> (so for \<open>ASC\<close> and \<open>Asc\<close> too), and descending for every other value.
\<close>

theorem list_logs_sort:
  assumes "1 \<le> pg" and "1 \<le> pg_size" and "pg_size \<le> 100"
    and "Log_attribute sort_by = Some (Column c) \<or>
         (Log_attribute sort_by = None \<and> \<not> inherited sort_by \<and> c = ColTimestamp)"
  shows "map Log_attribute
           [''id'', ''timestamp'', ''message'', ''severity'', ''source'', ''metadata_json'',
            ''created_at'', ''updated_at''] =
         map (\<lambda>c. Some (Column c))
           [ColId, ColTimestamp, ColMessage, ColSeverity, ColSource, ColMetadataJson,
            ColCreatedAt, ColUpdatedAt] \<and>
         (\<exists>r. list_logs inherited db pg pg_size sd ed sev src search sort_by sort_order = Inr r \<and>
            items r = take (nat pg_size) (drop (nat ((pg - 1) * pg_size))
                 (order_by c (lower sort_order = ''asc'')
                    (filter (and_all (list_conditions sd ed sev src search)) db))) \<and>
            (if lower sort_order = ''asc''
             then sorted_wrt (le_column c)
                    (order_by c (lower sort_order = ''asc'')
                       (filter (and_all (list_conditions sd ed sev src search)) db)) \<and>
                  sorted_wrt (le_column c) (items r)
             else sorted_wrt (\<lambda>a b. le_column c b a)
                    (order_by c (lower sort_order = ''asc'')
                       (filter (and_all (list_conditions sd ed sev src search)) db)) \<and>
                  sorted_wrt (\<lambda>a b. le_column c b a) (items r)))"
proof -
  have names: "map Log_attribute
           [''id'', ''timestamp'', ''message'', ''severity'', ''source'', ''metadata_json'',
            ''created_at'', ''updated_at''] =
         map (\<lambda>c. Some (Column c))
           [ColId, ColTimestamp, ColMessage, ColSeverity, ColSource, ColMetadataJson,
            ColCreatedAt, ColUpdatedAt]"
    by (simp add: Log_attribute_def)
  have col: "getattr_Log inherited sort_by (Column ColTimestamp) = Column c"
    using assms(4) by (rule getattr_Log_column)
  have page_sorted: "sorted_wrt le (take n (drop k xs))" if "sorted_wrt le xs"
    for le :: "Log \<Rightarrow> Log \<Rightarrow> bool" and n k xs
    using that by (simp add: sorted_wrt_take sorted_wrt_drop)
  show ?thesis
  proof (cases "lower sort_order = ''asc''")
    case True
    then show ?thesis
      unfolding list_logs_ok[OF assms(1-3) col]
      using names sorted_order_by_asc[of c] page_sorted[of "le_column c"] by simp
  next
    case False
    then show ?thesis
      unfolding list_logs_ok[OF assms(1-3) col]
      using names sorted_order_by_desc[of c] page_sorted[of "\<lambda>a b. le_column c b a"] by simp
  qed
qed

theorem list_logs_sort_witness:
  "Log_attribute ''message'' = Some (Column ColMessage) \<and>
   (\<exists>r. list_logs (\<lambda>n. False)
          [sample_log 1 10 INFO ''svc-a'' ''b'', sample_log 2 20 ERROR ''svc-b'' ''a'']
          1 20 None None None None None ''message'' ''Asc'' = Inr r \<and>
        items r = [sample_log 2 20 ERROR ''svc-b'' ''a'', sample_log 1 10 INFO ''svc-a'' ''b'']) \<and>
   Log_attribute ''level'' = None \<and>
   (\<exists>r. list_logs (\<lambda>n. False)
          [sample_log 1 10 INFO ''svc-a'' ''b'', sample_log 2 20 ERROR ''svc-b'' ''a'']
          1 20 None None None None None ''level'' ''down'' = Inr r \<and>
        items r = [sample_log 2 20 ERROR ''svc-b'' ''a'', sample_log 1 10 INFO ''svc-a'' ''b''])"
proof -
  have a1: "Log_attribute ''message'' = Some (Column ColMessage)"
    and a2: "Log_attribute ''level'' = None"
    by (simp_all add: Log_attribute_def)
  have sel: "filter (and_all (list_conditions None None None None None))
      [sample_log 1 10 INFO ''svc-a'' ''b'', sample_log 2 20 ERROR ''svc-b'' ''a''] =
      [sample_log 1 10 INFO ''svc-a'' ''b'', sample_log 2 20 ERROR ''svc-b'' ''a'']"
    by (simp add: list_conditions_def and_all_def)
  have o1: "order_by ColMessage (lower ''Asc'' = ''asc'')
      [sample_log 1 10 INFO ''svc-a'' ''b'', sample_log 2 20 ERROR ''svc-b'' ''a''] =
      [sample_log 2 20 ERROR ''svc-b'' ''a'', sample_log 1 10 INFO ''svc-a'' ''b'']"
    by (simp add: order_by_def sort_with_def lower_def lower_char_def sample_log_def)
  have o2: "order_by ColTimestamp (lower ''down'' = ''asc'')
      [sample_log 1 10 INFO ''svc-a'' ''b'', sample_log 2 20 ERROR ''svc-b'' ''a''] =
      [sample_log 2 20 ERROR ''svc-b'' ''a'', sample_log 1 10 INFO ''svc-a'' ''b'']"
    by (simp add: order_by_def sort_with_def lower_def lower_char_def sample_log_def)
  from list_logs_sort[of 1 20 "''message''" ColMessage "\<lambda>n. False"
      "[sample_log 1 10 INFO ''svc-a'' ''b'', sample_log 2 20 ERROR ''svc-b'' ''a'']"
      None None None None None "''Asc''"]
  have w1: "\<exists>r. list_logs (\<lambda>n. False)
          [sample_log 1 10 INFO ''svc-a'' ''b'', sample_log 2 20 ERROR ''svc-b'' ''a'']
          1 20 None None None None None ''message'' ''Asc'' = Inr r \<and>
        items r = [sample_log 2 20 ERROR ''svc-b'' ''a'', sample_log 1 10 INFO ''svc-a'' ''b'']"
    unfolding sel o1 using a1 by auto
  from list_logs_sort[of 1 20 "''level''" ColTimestamp "\<lambda>n. False"
      "[sample_log 1 10 INFO ''svc-a'' ''b'', sample_log 2 20 ERROR ''svc-b'' ''a'']"
      None None None None None "''down''"]
  have w2: "\<exists>r. list_logs (\<lambda>n. False)
          [sample_log 1 10 INFO ''svc-a'' ''b'', sample_log 2 20 ERROR ''svc-b'' ''a'']
          1 20 None None None None None ''level'' ''down'' = Inr r \<and>
        items r = [sample_log 2 20 ERROR ''svc-b'' ''a'', sample_log 1 10 INFO ''svc-a'' ''b'']"
    unfolding sel o2 using a2 by auto
  show ?thesis using a1 a2 w1 w2 by simp
qed

text \<open>
  Claim C4 as stated fails: \<open>ASC\<close> is a value other than \<open>asc\<close>, and with it the
  rows come in ascending order of \<open>timestamp\<close>.
\<close>

theorem sort_order_uppercase_counterexample:
  "''ASC'' \<noteq> ''asc'' \<and>
   list_logs (\<lambda>n. False)
     [sample_log 1 10 INFO ''svc-a'' ''a'', sample_log 2 20 ERROR ''svc-b'' ''b'']
     1 20 None None None None None ''timestamp'' ''ASC'' =
   Inr \<lparr>items = [sample_log 1 10 INFO ''svc-a'' ''a'', sample_log 2 20 ERROR ''svc-b'' ''b''],
        total = 2, page = 1, page_size = 20, total_pages = 1\<rparr> \<and>
   timestamp (sample_log 1 10 INFO ''svc-a'' ''a'') <
     timestamp (sample_log 2 20 ERROR ''svc-b'' ''b'')"
  by (simp add: list_logs_def MAX_PAGE_SIZE_def Let_def getattr_Log_def Log_attribute_def
      list_conditions_def where_if_def order_by_def sort_with_def lower_def lower_char_def
      sample_log_def)

text \<open>
  A name that is an attribute of \<open>Log\<close> without being a column does not fall back to
  \<open>timestamp\<close>: \<open>getattr\<close> finds the attribute, and ordering by it raises.
\<close>

lemma sort_by_tablename_not_timestamp:
  "list_logs inherited db 1 20 None None None None None ''__tablename__'' ''desc'' =
     Inl ServerError"
  by (simp add: list_logs_def MAX_PAGE_SIZE_def Let_def getattr_Log_def Log_attribute_def)

section \<open>Aggregation, trend and export\<close>

lemma and_all_append: "and_all (cs @ ds) l = (and_all cs l \<and> and_all ds l)"
  by (simp add: and_all_def)

lemma sum_insort_with: "sum_list (map f (insort_with le x xs)) = f x + sum_list (map f xs)"
  for f :: "'a \<Rightarrow> int"
  by (induction xs) auto

lemma sum_sort_with: "sum_list (map f (sort_with le xs)) = sum_list (map f xs)"
  for f :: "'a \<Rightarrow> int"
  by (induction xs) (simp_all add: sort_with_def sum_insort_with)

lemma length_filter_key: "length (filter (\<lambda>r. key r = k) rows) = count_list (map key rows) k"
  by (induction rows) auto

lemma sum_group_count: "sum_list (map snd (group_count key rows)) = int (length rows)"
proof -
  let ?ks = "map key rows"
  have "sum_list (map snd (group_count key rows)) =
        sum_list (map (\<lambda>k. int (count_list ?ks k)) (remdups ?ks))"
    by (simp add: group_count_def comp_def length_filter_key)
  also have "\<dots> = (\<Sum>k\<in>set ?ks. int (count_list ?ks k))"
    using sum_list_distinct_conv_sum_set[of "remdups ?ks" "\<lambda>k. int (count_list ?ks k)"] by simp
  also have "\<dots> = int (\<Sum>k\<in>set ?ks. count_list ?ks k)"
    by simp
  also have "\<dots> = int (length ?ks)"
    using sum_count_set[of ?ks "set ?ks"] by simp
  finally show ?thesis by simp
qed


text \<open>
  Claim C10. For every table and every filter assignment of \<open>get_log_stats\<close>, the
  counts of \<open>severity_breakdown\<close> add up to \<open>total_logs\<close>: both are computed over the
  rows that satisfy the same conditions, and each row is counted under its one severity.
\<close>

theorem severity_counts_sum_to_total:
  "sum_list (map count (severity_breakdown (get_log_stats now db start_date end_date src))) =
     total_logs (get_log_stats now db start_date end_date src) \<and>
   total_logs (get_log_stats now db start_date end_date src) =
     int (length (filter (and_all (stats_conditions start_date end_date src)) db))"
proof -
  have "count \<circ> (\<lambda>(k, n). \<lparr>label = severity_value k, count = n\<rparr>) = snd"
    by (auto simp: fun_eq_iff)
  then show ?thesis
    by (simp add: get_log_stats_def Let_def sum_sort_with sum_group_count where_if_filter)
qed


















text \<open>
  Claim C1 at a failing input. The entry is a hundred days older than \<open>now\<close>. With only
  the source filter supplied, \<open>get_log_stats\<close> counts it in \<open>trend_data\<close>: the list of
  conditions is not empty, so the thirty-day bound of the \<open>else\<close> branch is not applied.
  Without any filter the bound applies, and \<open>get_log_trend\<close> applies it with the same
  source filter.
\<close>

theorem stats_trend_source_only_unbounded:
  "\<not> (8640000000000 - thirty_days \<le> timestamp (sample_log 1 0 INFO ''svc-a'' ''boot'')) \<and>
   trend_data (get_log_stats 8640000000000 [sample_log 1 0 INFO ''svc-a'' ''boot''] None None
     (Some ''svc-a'')) = [\<lparr>date = 0, count_t = 1, severity_t = None\<rparr>] \<and>
   trend_data (get_log_stats 8640000000000 [sample_log 1 0 INFO ''svc-a'' ''boot''] None None
     None) = [] \<and>
   get_log_trend 8640000000000 [sample_log 1 0 INFO ''svc-a'' ''boot''] None None None
     (Some ''svc-a'') False = []"
  by (simp add: get_log_stats_def get_log_trend_def trend_rows_def Let_def stats_conditions_def
      trend_conditions_def where_if_def and_all_def thirty_days_def group_count_def date_of_def
      sort_with_def sample_log_def)

end
